theory Spec2Isabelle
  imports Complex_Main "HOL-Library.Multiset"
begin

section \<open>The parser-generating agent of \<^verbatim>\<open>agent.py\<close>\<close>

text \<open>
  \<^verbatim>\<open>agent.py\<close> asks a language model for a plan and for the source text of a function
  \<^verbatim>\<open>parse(pdf_path)\<close>, writes the text to \<^verbatim>\<open>custom_parsers/<target>_parser_attempt_<n>.py\<close>,
  imports and runs it, and compares the returned DataFrame with the reference CSV by
  \<^verbatim>\<open>pandas.testing.assert_frame_equal\<close>. A three-node graph
  (planner, code generator, code tester) repeats generation and testing until the test
  passes or the counter \<^verbatim>\<open>attempts_left\<close> is used up.

  The embedding follows the node functions line by line. What the Python process obtains
  from outside (the file system of the data directory, the language model, the behaviour
  of a generated module when it is imported and run, the text of a traceback, the
  \<^verbatim>\<open>repr\<close> of a list) is a field of the record \<open>env\<close>. What the process changes
  (files written under \<^verbatim>\<open>custom_parsers\<close>, prompts sent to the model) is the record
  \<open>world\<close>, passed through every function and returned updated.
  Strings are lists of characters; texts are taken to be ASCII.
\<close>

subsection \<open>Exceptions and results\<close>

text \<open>
  An exception of class \<^verbatim>\<open>Exception\<close> is its class name and its message. A function
  of the source either returns, raises such an exception to its caller, or never returns.
\<close>

datatype exn = Exn (exn_name: string) (exn_msg: string)

datatype 'a result = Returns 'a | Raises exn | Hangs

subsection \<open>Tables\<close>

text \<open>
  A DataFrame with the default row index (\<^verbatim>\<open>reset_index(drop=True)\<close>): the number of
  rows, and the columns in order, each a label with its series of cells. A cell is a
  number (integer and float columns alike, since the comparison is called with
  \<^verbatim>\<open>check_dtype=False\<close>), a text, or a missing value.
\<close>

datatype cell = Num real | Str string | Null

record frame =
  nrows :: nat
  cols :: "(string \<times> cell list) list"

datatype py_value = DataFrame frame | NotDataFrame

subsection \<open>The environment and the world\<close>

datatype llm_reply = Reply string | CallFails exn

text \<open>
  What importing a generated module and calling its \<^verbatim>\<open>parse\<close> can do:
  the import raises, the module has no attribute \<^verbatim>\<open>parse\<close>, the call raises, the call
  returns a value, something raises a \<^verbatim>\<open>BaseException\<close> that is not an
  \<^verbatim>\<open>Exception\<close> (\<^verbatim>\<open>SystemExit\<close> from \<^verbatim>\<open>sys.exit()\<close>, \<^verbatim>\<open>KeyboardInterrupt\<close>),
  or the code never returns.
\<close>

datatype exec_outcome =
    LoadRaises exn
  | NoParseAttr
  | ParseRaises exn
  | ParseReturns py_value
  | ExitRequested
  | NeverReturns

record env =
  path_exists :: "string \<Rightarrow> bool"
  read_csv :: "string \<Rightarrow> exn + frame"
  pdf_pages :: "string \<Rightarrow> exn + string list"
  generate_content :: "nat \<Rightarrow> string \<Rightarrow> llm_reply"
  run_candidate :: "string \<Rightarrow> string \<Rightarrow> exec_outcome"
  makedirs_fails :: "string \<Rightarrow> exn option"
  open_fails :: "string \<Rightarrow> exn option"
  write_fails :: "string \<Rightarrow> exn option"
  format_exc :: "exn \<Rightarrow> string"
  py_repr :: "string list \<Rightarrow> string"

text \<open>
  \<open>path_exists\<close> is \<^verbatim>\<open>os.path.exists\<close>; \<open>read_csv\<close> is \<^verbatim>\<open>pd.read_csv\<close>, which
  raises on an unreadable file; \<open>pdf_pages p\<close> is the text of each page of the PDF
  (\<^verbatim>\<open>page.extract_text() or ""\<close>) unless \<^verbatim>\<open>PdfReader\<close> raises;
  \<open>generate_content k prompt\<close> is what the \<open>k\<close>-th call of the model answers;
  \<open>run_candidate src pdf\<close> is what the module with source text \<open>src\<close> does when it is
  imported and \<^verbatim>\<open>parse(pdf)\<close> is called; \<open>makedirs_fails d\<close> is the exception of
  \<^verbatim>\<open>os.makedirs(d, exist_ok=True)\<close>, if it raises one; \<open>open_fails p\<close> is the exception
  of \<^verbatim>\<open>open(p, "w", encoding="utf-8")\<close>, if it raises one (a missing directory, a
  name that is too long, no permission); \<open>write_fails p\<close> is the exception of
  \<^verbatim>\<open>f.write\<close> on the file opened at \<open>p\<close>, if it raises one; \<open>format_exc\<close> is
  \<^verbatim>\<open>traceback.format_exc()\<close> while the exception is handled; \<open>py_repr\<close> is Python's
  \<^verbatim>\<open>repr\<close> of a list of strings.

  The world holds the files written so far (newest first, each with its path and its
  content) and the prompts sent so far (newest first).
\<close>

record world =
  writes :: "(string \<times> string) list"
  prompts :: "string list"

text \<open>
  \<^verbatim>\<open>with open(path, "w", encoding="utf-8") as f: f.write(content)\<close>. When \<^verbatim>\<open>open\<close>
  raises, the file is untouched; when \<^verbatim>\<open>open\<close> succeeds the file has been truncated, so
  a failing \<^verbatim>\<open>f.write\<close> leaves it empty. The result is the exception raised, if any,
  and the world after the statement.
\<close>

definition write_file :: "env \<Rightarrow> string \<Rightarrow> string \<Rightarrow> world \<Rightarrow> exn option \<times> world" where
  "write_file e path content w =
     (case open_fails e path of
        Some x \<Rightarrow> (Some x, w)
      | None \<Rightarrow>
          (case write_fails e path of
             Some x \<Rightarrow> (Some x, w\<lparr>writes := (path, []) # writes w\<rparr>)
           | None \<Rightarrow> (None, w\<lparr>writes := (path, content) # writes w\<rparr>)))"


subsection \<open>The state of the graph\<close>

text \<open>
  \<^verbatim>\<open>class AgentState(TypedDict)\<close>. \<^verbatim>\<open>__main__\<close> sets every key, so the defaults of
  \<^verbatim>\<open>state.get(key, default)\<close> are never taken.
\<close>

record agent_state =
  target :: string
  pdf_path :: string
  csv_path :: string
  plan :: string
  code :: string
  feedback :: string
  attempts_left :: int
  attempt_no :: int

subsection \<open>Python string helpers\<close>

text \<open>\<^verbatim>\<open>str(n)\<close> for an integer: decimal digits, with a minus sign if negative.\<close>

definition digit_char :: "nat \<Rightarrow> char" where
  "digit_char d = char_of (48 + d)"

fun str_nat :: "nat \<Rightarrow> string" where
  "str_nat n = (if n < 10 then [digit_char n] else str_nat (n div 10) @ [digit_char (n mod 10)])"

declare str_nat.simps [simp del]

definition str_int :: "int \<Rightarrow> string" where
  "str_int i = (if i < 0 then CHR ''-'' # str_nat (nat (- i)) else str_nat (nat i))"

text \<open>
  \<^verbatim>\<open>os.path.join(a, b)\<close> on POSIX: an absolute \<open>b\<close> replaces \<open>a\<close>; otherwise the
  two are joined by one slash, unless \<open>a\<close> is empty or ends with one.
\<close>

definition path_join :: "string \<Rightarrow> string \<Rightarrow> string" where
  "path_join a b =
     (if b \<noteq> [] \<and> hd b = CHR ''/'' then b
      else if a = [] \<or> last a = CHR ''/'' then a @ b
      else a @ ''/'' @ b)"

text \<open>The characters \<^verbatim>\<open>str.strip()\<close> removes, in the ASCII range.\<close>

definition py_isspace :: "char \<Rightarrow> bool" where
  "py_isspace c \<longleftrightarrow> c \<in> {CHR 0x09, CHR 0x0A, CHR 0x0B, CHR 0x0C, CHR 0x0D,
                          CHR 0x1C, CHR 0x1D, CHR 0x1E, CHR 0x1F, CHR 0x20}"

definition py_strip :: "string \<Rightarrow> string" where
  "py_strip s = rev (dropWhile py_isspace (rev (dropWhile py_isspace s)))"




fun py_join :: "string \<Rightarrow> string list \<Rightarrow> string" where
  "py_join sep [] = []"
| "py_join sep [x] = x"
| "py_join sep (x # y # ys) = x @ sep @ py_join sep (y # ys)"

subsection \<open>\<^verbatim>\<open>clean_code_block\<close>\<close>

text \<open>
  \<^verbatim>\<open>re.sub(r"^```[a-zA-Z0-9_-]*\n?", "", text, flags=re.MULTILINE)\<close>: at the start of
  the text and after every newline, three backticks, the run of language-hint characters
  after them and one newline, if there is one, are removed. The flag says whether the
  character before the current position is a newline (or there is none), also when that
  newline was itself removed by the match before. Then every remaining run of three
  backticks is removed and the result is stripped. The argument is a string at the only
  call site, so the \<^verbatim>\<open>isinstance\<close> guard is not taken.
\<close>

definition is_hint_char :: "char \<Rightarrow> bool" where
  "is_hint_char c \<longleftrightarrow>
     (let n = (of_char c :: nat)
      in (97 \<le> n \<and> n \<le> 122) \<or> (65 \<le> n \<and> n \<le> 90) \<or> (48 \<le> n \<and> n \<le> 57) \<or>
         c = CHR ''_'' \<or> c = CHR ''-'')"

function sub_fence_openers :: "bool \<Rightarrow> string \<Rightarrow> string" where
  "sub_fence_openers at_start [] = []"
| "sub_fence_openers at_start (c # cs) =
     (if at_start \<and> take 3 (c # cs) = [CHR 0x60, CHR 0x60, CHR 0x60] then
        (case dropWhile is_hint_char (drop 2 cs) of
           [] \<Rightarrow> []
         | d # ds \<Rightarrow> if d = CHR 0x0A then sub_fence_openers True ds
                     else sub_fence_openers False (d # ds))
      else c # sub_fence_openers (c = CHR 0x0A) cs)"
  by pat_completeness auto
termination
proof (relation "measure (\<lambda>(b, s). length s)")
  show "wf (measure (\<lambda>(b, s). length s))" by simp
next
  fix at_start :: bool and c :: char and cs :: string and d :: char and ds :: string
  assume "dropWhile is_hint_char (drop 2 cs) = d # ds"
  then have "length (d # ds) \<le> length (drop 2 cs)"
    using length_dropWhile_le [of is_hint_char "drop 2 cs"] by simp
  then show "((True, ds), at_start, c # cs) \<in> measure (\<lambda>(b, s). length s)" by simp
next
  fix at_start :: bool and c :: char and cs :: string and d :: char and ds :: string
  assume "dropWhile is_hint_char (drop 2 cs) = d # ds"
  then have "length (d # ds) \<le> length (drop 2 cs)"
    using length_dropWhile_le [of is_hint_char "drop 2 cs"] by simp
  then show "((False, d # ds), at_start, c # cs) \<in> measure (\<lambda>(b, s). length s)" by simp
next
  fix at_start :: bool and c :: char and cs :: string
  show "((c = CHR 0x0A, cs), at_start, c # cs) \<in> measure (\<lambda>(b, s). length s)" by simp
qed

fun remove_fences :: "string \<Rightarrow> string" where
  "remove_fences (a # b # c # cs) =
     (if a = CHR 0x60 \<and> b = CHR 0x60 \<and> c = CHR 0x60 then remove_fences cs
      else a # remove_fences (b # c # cs))"
| "remove_fences cs = cs"

definition clean_code_block :: "string \<Rightarrow> string" where
  "clean_code_block text = py_strip (remove_fences (sub_fence_openers True text))"

subsection \<open>\<^verbatim>\<open>extract_pdf_text\<close>\<close>


subsection \<open>The local fallbacks and the prompts\<close>


definition local_code_fallback :: "env \<Rightarrow> string list \<Rightarrow> string" where
  \<open>local_code_fallback e csv_schema =
       ''# FALLBACK parser (agent generated)\<newline>'' @
       ''import pandas as pd\<newline>'' @
       ''from pypdf import PdfReader\<newline>'' @
       ''from typing import Optional\<newline>'' @
       ''\<newline>'' @
       ''SCHEMA = '' @
       py_repr e csv_schema @
       ''\<newline>'' @
       ''\<newline>'' @
       ''def parse(pdf_path: str) -> Optional[pd.DataFrame]:\<newline>'' @
       ''    try:\<newline>'' @
       ''        reader = PdfReader(pdf_path)\<newline>'' @
       ''        rows = []\<newline>'' @
       ''        for page in reader.pages:\<newline>'' @
       ''            text = page.extract_text() or ""\<newline>'' @
       ''            for line in text.splitlines():\<newline>'' @
       ''                ln = line.strip()\<newline>'' @
       ''                if not ln:\<newline>'' @
       ''                    continue\<newline>'' @
       ''                # naive heuristic: lines with a date at start (DD/MM/YYYY or YYYY-MM-DD or DD-MM-YYYY)\<newline>'' @
       ''                if ln[:2].isdigit() and ("/" in ln or "-" in ln):\<newline>'' @
       ''                    parts = ln.split()\<newline>'' @
       ''                    # put entire remainder into Description if fewer tokens\<newline>'' @
       ''                    if len(parts) >= 4:\<newline>'' @
       ''                        date = parts[0]\<newline>'' @
       ''                        amount = parts[-2]\<newline>'' @
       ''                        balance = parts[-1]\<newline>'' @
       ''                        description = " ".join(parts[1:-2])\<newline>'' @
       ''                    else:\<newline>'' @
       ''                        # fallback: place entire line into Description\<newline>'' @
       ''                        date = parts[0]\<newline>'' @
       ''                        description = " ".join(parts[1:])\<newline>'' @
       ''                        amount = None\<newline>'' @
       ''                        balance = None\<newline>'' @
       ''                    rows.append([date, description, amount, balance])\<newline>'' @
       ''        df = pd.DataFrame(rows, columns=SCHEMA[:4]) if rows else pd.DataFrame(columns=SCHEMA)\<newline>'' @
       ''        # Coerce numeric columns\<newline>'' @
       ''        for c in df.columns:\<newline>'' @
       ''            if c.lower() in ('amount', 'balance', 'debit', 'credit'):\<newline>'' @
       ''                df[c] = pd.to_numeric(df[c].astype(str).str.replace(',', '' @ [CHR 0x27, CHR 0x27] @ ''), errors='coerce')\<newline>'' @
       ''        return df\<newline>'' @
       ''    except Exception as e:\<newline>'' @
       ''        raise RuntimeError(f"Fallback parser error: {e}")\<newline>''\<close>


definition generator_prompt :: "env \<Rightarrow> string list \<Rightarrow> string \<Rightarrow> string \<Rightarrow> string" where
  "generator_prompt e csv_schema the_plan previous_feedback =
       ''\<newline>'' @
       ''You are an expert Python developer. Based on the plan below, write a complete Python script that defines:\<newline>'' @
       ''\<newline>'' @
       ''def parse(pdf_path: str) -> pd.DataFrame\<newline>'' @
       ''\<newline>'' @
       ''Constraints:\<newline>'' @
       ''- The returned DataFrame must have columns exactly: '' @
       py_repr e csv_schema @
       ''\<newline>'' @
       ''- Use pypdf for PDF extraction and pandas for data manipulation.\<newline>'' @
       ''- Do NOT include any markdown fences or explanatory text '' @ [CHR 0xE2, CHR 0x80, CHR 0x94] @ '' return ONLY raw Python code.\<newline>'' @
       ''\<newline>'' @
       ''Plan:\<newline>'' @
       the_plan @
       ''\<newline>'' @
       ''\<newline>'' @
       ''Previous feedback:\<newline>'' @
       previous_feedback @
       ''\<newline>''"

subsection \<open>\<^verbatim>\<open>safe_generate_text\<close>, \<^verbatim>\<open>planner_node\<close>, \<^verbatim>\<open>code_generator_node\<close>\<close>

text \<open>
  \<^verbatim>\<open>safe_generate_text\<close> returns the empty string when the call raises. Both nodes read
  the reference CSV for its column labels outside any \<^verbatim>\<open>try\<close>, so a failure of
  \<^verbatim>\<open>pd.read_csv\<close> leaves the node as an exception.
\<close>

definition safe_generate_text :: "env \<Rightarrow> string \<Rightarrow> world \<Rightarrow> string \<times> world" where
  "safe_generate_text e prompt w =
     (case generate_content e (length (prompts w)) prompt of
        Reply txt \<Rightarrow> txt
      | CallFails x \<Rightarrow> [],
      w\<lparr>prompts := prompt # prompts w\<rparr>)"


definition code_generator_node :: "env \<Rightarrow> agent_state \<Rightarrow> world \<Rightarrow> (agent_state \<times> world) result" where
  "code_generator_node e s w =
     (case read_csv e (csv_path s) of
        Inl x \<Rightarrow> Raises x
      | Inr df \<Rightarrow>
          let csv_schema = map fst (cols df);
              (resp_text, w1) = safe_generate_text e (generator_prompt e csv_schema (plan s) (feedback s)) w;
              cleaned = clean_code_block resp_text;
              cleaned = (if cleaned = [] \<or> length cleaned < 50 then local_code_fallback e csv_schema
                         else cleaned)
          in Returns (s\<lparr>code := cleaned\<rparr>, w1))"

subsection \<open>The comparison of the tester\<close>

text \<open>
  The tester calls
  \<^verbatim>\<open>pd.testing.assert_frame_equal(result_df.reset_index(drop=True), expected_df.reset_index(drop=True), check_dtype=False, check_like=True)\<close>.
  The library function is not part of the repository; the definitions below follow its
  documented behaviour for these arguments, in the order of its checks:
  \<^enum> the shapes (rows, columns) must be equal;
  \<^enum> with \<^verbatim>\<open>check_like=True\<close> the column labels are compared regardless of their order;
  \<^enum> the left frame is reindexed like the right one (pandas refuses this for duplicate
    labels, unless the labels are already identical);
  \<^enum> the columns are compared one by one, cell by cell in row order: numbers within the
    default tolerance (\<^verbatim>\<open>rtol=1e-5\<close>, \<^verbatim>\<open>atol=1e-8\<close>), texts by equality, a text never
    equal to a number.
  A failed check raises \<^verbatim>\<open>AssertionError\<close>; only the first line of its message is kept.
\<close>

datatype compare_result = Equal | AssertionError string | OtherError exn

fun cell_close :: "cell \<Rightarrow> cell \<Rightarrow> bool" where
  "cell_close (Num a) (Num b) \<longleftrightarrow> \<bar>a - b\<bar> \<le> max (1 / 10 ^ 5 * max \<bar>a\<bar> \<bar>b\<bar>) (1 / 10 ^ 8)"
| "cell_close (Str a) (Str b) \<longleftrightarrow> a = b"
| "cell_close Null Null \<longleftrightarrow> True"
| "cell_close _ _ \<longleftrightarrow> False"

definition series_close :: "cell list \<Rightarrow> cell list \<Rightarrow> bool" where
  "series_close xs ys \<longleftrightarrow> list_all2 cell_close xs ys"

definition labels :: "frame \<Rightarrow> string list" where
  "labels f = map fst (cols f)"

text \<open>The series under a label; reindexing fills a label that is absent with missing values.\<close>

definition series_of :: "frame \<Rightarrow> string \<Rightarrow> cell list" where
  "series_of f l = (case map_of (cols f) l of None \<Rightarrow> replicate (nrows f) Null | Some xs \<Rightarrow> xs)"

definition reindex_like :: "frame \<Rightarrow> frame \<Rightarrow> exn + frame" where
  "reindex_like left right =
     (if labels left = labels right then Inr left
      else if \<not> distinct (labels left)
        then Inl (Exn ''ValueError'' ''cannot reindex on an axis with duplicate labels'')
      else Inr (left\<lparr>cols := map (\<lambda>l. (l, series_of left l)) (labels right)\<rparr>))"

fun compare_columns :: "nat \<Rightarrow> (string \<times> cell list) list \<Rightarrow> (string \<times> cell list) list \<Rightarrow> compare_result" where
  \<open>compare_columns i ((l, xs) # ls) ((r, ys) # rs) =
     (if series_close xs ys then compare_columns (Suc i) ls rs
      else AssertionError (''DataFrame.iloc[:, '' @ str_nat i @ ''] (column name="'' @ l @ ''") are different''))\<close>
| \<open>compare_columns i ls rs = Equal\<close>

definition assert_frame_equal :: "frame \<Rightarrow> frame \<Rightarrow> compare_result" where
  "assert_frame_equal left right =
     (if (nrows left, length (cols left)) \<noteq> (nrows right, length (cols right))
        then AssertionError ''DataFrame shape mismatch''
      else if mset (labels left) \<noteq> mset (labels right)
        then AssertionError ''DataFrame.columns are different''
      else case reindex_like left right of
             Inl x \<Rightarrow> OtherError x
           | Inr left' \<Rightarrow> compare_columns 0 (cols left') (cols right))"

subsection \<open>\<^verbatim>\<open>code_tester_node\<close> and \<^verbatim>\<open>should_continue\<close>\<close>

definition parser_dir :: string where
  "parser_dir = ''custom_parsers''"

definition attempt_path :: "string \<Rightarrow> int \<Rightarrow> string" where
  "attempt_path tgt n = path_join parser_dir (tgt @ ''_parser_attempt_'' @ str_int n @ ''.py'')"

definition final_path :: "string \<Rightarrow> string" where
  "final_path tgt = path_join parser_dir (tgt @ ''_parser.py'')"

text \<open>The feedback of the outer handler: \<^verbatim>\<open>f"{type(e).__name__}: {e}\n{tb}"\<close>.\<close>

definition exception_feedback :: "env \<Rightarrow> exn \<Rightarrow> string" where
  "exception_feedback e x = exn_name x @ '': '' @ exn_msg x @ ''\<newline>'' @ format_exc e x"

text \<open>The \<^verbatim>\<open>finally\<close> block: it runs on every path and ends with \<^verbatim>\<open>return state\<close>.\<close>

definition finally_block :: "agent_state \<Rightarrow> agent_state" where
  "finally_block s = s\<lparr>attempts_left := max 0 (attempts_left s - 1), attempt_no := attempt_no s + 1\<rparr>"

text \<open>
  \<^verbatim>\<open>os.makedirs\<close> and the writing of the attempt file come before the \<^verbatim>\<open>try\<close>: an
  exception there leaves the node at once, and the \<^verbatim>\<open>finally\<close> block does not run.
  Inside the \<^verbatim>\<open>try\<close>, an \<^verbatim>\<open>Exception\<close> raised while the module is loaded, run or
  compared, or while the canonical file is written (after the feedback was set to
  \<^verbatim>\<open>"success"\<close>), reaches the outer handler, which stores its text as feedback. An
  exception outside \<^verbatim>\<open>Exception\<close> passes the handler, and the \<^verbatim>\<open>return\<close> of the
  \<^verbatim>\<open>finally\<close> block discards it: the feedback is left as it was. A candidate that
  never returns keeps the node from returning.
\<close>

definition code_tester_node :: "env \<Rightarrow> agent_state \<Rightarrow> world \<Rightarrow> (agent_state \<times> world) result" where
  "code_tester_node e s w =
     (case makedirs_fails e parser_dir of
        Some x \<Rightarrow> Raises x
      | None \<Rightarrow>
          (case write_file e (attempt_path (target s) (attempt_no s)) (code s) w of
             (Some x, w1) \<Rightarrow> Raises x
           | (None, w1) \<Rightarrow>
               (let failed = (\<lambda>x. Returns (finally_block (s\<lparr>feedback := exception_feedback e x\<rparr>), w1))
                in case run_candidate e (code s) (pdf_path s) of
                     NeverReturns \<Rightarrow> Hangs
                   | ExitRequested \<Rightarrow> Returns (finally_block s, w1)
                   | LoadRaises x \<Rightarrow> failed x
                   | NoParseAttr \<Rightarrow>
                       failed (Exn ''AttributeError''
                                   (''Generated parser module has no '' @ [CHR 0x60] @ ''parse'' @
                                    [CHR 0x60] @ '' function.''))
                   | ParseRaises x \<Rightarrow> failed x
                   | ParseReturns NotDataFrame \<Rightarrow>
                       failed (Exn ''TypeError'' ''parse() did not return a pandas DataFrame.'')
                   | ParseReturns (DataFrame result_df) \<Rightarrow>
                       (case read_csv e (csv_path s) of
                          Inl x \<Rightarrow> failed x
                        | Inr expected_df \<Rightarrow>
                            (case assert_frame_equal result_df expected_df of
                               Equal \<Rightarrow>
                                 (case write_file e (final_path (target s)) (code s) w1 of
                                    (Some x, w2) \<Rightarrow>
                                      Returns (finally_block (s\<lparr>feedback := exception_feedback e x\<rparr>), w2)
                                  | (None, w2) \<Rightarrow>
                                      Returns (finally_block (s\<lparr>feedback := ''success''\<rparr>), w2))
                             | AssertionError ae \<Rightarrow>
                                 Returns (finally_block (s\<lparr>feedback := ''DataFrames not equal: '' @ ae\<rparr>), w1)
                             | OtherError x \<Rightarrow> failed x)))))"

definition should_continue :: "agent_state \<Rightarrow> string" where
  "should_continue s =
     (if feedback s = ''success'' then ''end''
      else if attempts_left s \<le> 0 then ''end''
      else ''continue'')"

subsection \<open>The graph\<close>

text \<open>
  The entry point is the planner; the planner leads to the generator, the generator to
  the tester, and the conditional edge after the tester leads back to the generator on
  \<^verbatim>\<open>"continue"\<close> and to the end on \<^verbatim>\<open>"end"\<close>. Each node returns the whole state, which
  becomes the state of the graph. The loop stops because a tester that returns has
  lowered \<^verbatim>\<open>attempts_left\<close>, and the edge continues only while it is positive. An
  exception that leaves a node leaves the invocation. (The bound the graph library puts
  on the number of steps of one invocation is not part of the source and is not modelled.)
\<close>

function generate_and_test :: "env \<Rightarrow> agent_state \<Rightarrow> world \<Rightarrow> (agent_state \<times> world) result" where
  "generate_and_test e s w =
     (case code_generator_node e s w of
        Raises x \<Rightarrow> Raises x
      | Hangs \<Rightarrow> Hangs
      | Returns (s1, w1) \<Rightarrow>
          (case code_tester_node e s1 w1 of
             Raises x \<Rightarrow> Raises x
           | Hangs \<Rightarrow> Hangs
           | Returns (s2, w2) \<Rightarrow>
               if should_continue s2 = ''continue'' then generate_and_test e s2 w2
               else Returns (s2, w2)))"
  by pat_completeness auto
termination
proof (relation "measure (\<lambda>(e, s, w). nat (attempts_left s))")
  show "wf (measure (\<lambda>(e, s, w). nat (attempts_left s)))" by simp
next
  fix e :: env and s s1 s2 :: agent_state and w w1 w2 :: world and x1 x2
  assume gen: "code_generator_node e s w = Returns x1" and x1: "(s1, w1) = x1"
    and tst: "code_tester_node e s1 w1 = Returns x2" and x2: "(s2, w2) = x2"
    and cont: "should_continue s2 = ''continue''"
  from gen x1 have "attempts_left s1 = attempts_left s"
    by (auto simp: code_generator_node_def Let_def split: sum.splits prod.splits)
  moreover from tst x2 have "attempts_left s2 = max 0 (attempts_left s1 - 1)"
    by (auto simp: code_tester_node_def finally_block_def Let_def
        split: exec_outcome.splits py_value.splits sum.splits compare_result.splits
               option.splits prod.splits)
  moreover from cont have "0 < attempts_left s2"
    by (simp add: should_continue_def split: if_splits)
  ultimately show "((e, s2, w2), e, s, w) \<in> measure (\<lambda>(e, s, w). nat (attempts_left s))"
    by simp
qed

declare generate_and_test.simps [simp del]


subsection \<open>\<^verbatim>\<open>__main__\<close>\<close>


definition sample_path :: "string \<Rightarrow> string \<Rightarrow> string" where
  "sample_path target_bank ext =
     (let bank_prefix = (if target_bank = ''icici'' then ''icic'' else target_bank)
      in path_join (path_join ''data'' target_bank) (bank_prefix @ ''_sample.'' @ ext))"

definition initial_state :: "string \<Rightarrow> agent_state" where
  "initial_state target_bank =
     \<lparr>target = target_bank,
      pdf_path = sample_path target_bank ''pdf'',
      csv_path = sample_path target_bank ''csv'',
      plan = [], code = [], feedback = [],
      attempts_left = 3, attempt_no = 1\<rparr>"



subsection \<open>Notions used to state the properties\<close>

text \<open>
  A candidate passes validation when the tester reaches its success branch: \<^verbatim>\<open>parse\<close>
  returns a DataFrame, the reference CSV loads, and the comparison raises nothing.
\<close>

definition validation_passes :: "env \<Rightarrow> string \<Rightarrow> string \<Rightarrow> string \<Rightarrow> bool" where
  "validation_passes e pdf csv src =
     (case run_candidate e src pdf of
        ParseReturns (DataFrame result_df) \<Rightarrow>
          (case read_csv e csv of
             Inl x \<Rightarrow> False
           | Inr expected_df \<Rightarrow> assert_frame_equal result_df expected_df = Equal)
      | _ \<Rightarrow> False)"

text \<open>A candidate fails validation when it comes back to the tester without passing.\<close>

definition validation_fails :: "env \<Rightarrow> string \<Rightarrow> string \<Rightarrow> string \<Rightarrow> bool" where
  "validation_fails e pdf csv src \<longleftrightarrow>
     run_candidate e src pdf \<noteq> NeverReturns \<and> \<not> validation_passes e pdf csv src"

text \<open>The store takes a file: neither \<^verbatim>\<open>open\<close> nor \<^verbatim>\<open>f.write\<close> raises for the path.\<close>

definition store_accepts :: "env \<Rightarrow> string \<Rightarrow> bool" where
  "store_accepts e path \<longleftrightarrow> open_fails e path = None \<and> write_fails e path = None"


text \<open>The frame with rows \<open>i\<close> and \<open>j\<close> exchanged.\<close>

definition swap_rows :: "nat \<Rightarrow> nat \<Rightarrow> frame \<Rightarrow> frame" where
  "swap_rows i j f = f\<lparr>cols := map (\<lambda>(l, ys). (l, ys[i := ys ! j, j := ys ! i])) (cols f)\<rparr>"

subsection \<open>A small environment for concrete runs\<close>

text \<open>
  A reference table of two rows, an environment in which the reference loads and the
  store takes every file, with the presence of the data files, the model's answers and
  the candidates' behaviour as parameters, and an empty world.
\<close>

definition reference_table :: frame where
  "reference_table =
     \<lparr>nrows = 2,
      cols = [(''Date'', [Str ''01-08-2024'', Str ''02-08-2024'']),
              (''Description'', [Str ''Salary'', Str ''Rent'']),
              (''Amount'', [Num 1234.5, Num 10.01])]\<rparr>"

definition sample_env :: "bool \<Rightarrow> (nat \<Rightarrow> llm_reply) \<Rightarrow> (string \<Rightarrow> exec_outcome) \<Rightarrow> env" where
  "sample_env files_present llm candidate =
     \<lparr>path_exists = (\<lambda>p. files_present),
      read_csv = (\<lambda>p. Inr reference_table),
      pdf_pages = (\<lambda>p. Inr [''Date Description Amount'']),
      generate_content = (\<lambda>k prompt. llm k),
      run_candidate = (\<lambda>src pdf. candidate src),
      makedirs_fails = (\<lambda>d. None),
      open_fails = (\<lambda>p. None),
      write_fails = (\<lambda>p. None),
      format_exc = (\<lambda>x. ''Traceback (most recent call last):''),
      py_repr = (\<lambda>xs. ''['' @ py_join '', '' (map (\<lambda>x. [CHR 0x27] @ x @ [CHR 0x27]) xs) @ '']'')\<rparr>"

definition empty_world :: world where
  "empty_world = \<lparr>writes = [], prompts = []\<rparr>"

definition sample_state :: agent_state where
  "sample_state = (initial_state ''icici'')\<lparr>code := ''def parse(pdf_path): return None''\<rparr>"

section \<open>Properties\<close>





lemma str_nat_nonempty: "str_nat n \<noteq> []"
  by (subst str_nat.simps) simp


lemma path_join_parser_dir:
  "path_join parser_dir b = (if b \<noteq> [] \<and> hd b = CHR ''/'' then b else ''custom_parsers/'' @ b)"
  by (simp add: path_join_def parser_dir_def)


lemma attempt_path_not_final: "attempt_path tgt n \<noteq> final_path tgt"
proof
  assume eq: "attempt_path tgt n = final_path tgt"
  let ?a = "tgt @ ''_parser_attempt_'' @ str_int n @ ''.py''"
  let ?f = "tgt @ ''_parser.py''"
  have hd_eq: "hd ?a = hd ?f" by (cases tgt) simp_all
  from eq have "?a = ?f"
    unfolding attempt_path_def final_path_def path_join_parser_dir using hd_eq
    by (simp split: if_splits)
  then show False by simp
qed

lemma exception_feedback_not_success: "exception_feedback e x \<noteq> ''success''"
proof
  assume "exception_feedback e x = ''success''"
  then have "set (exception_feedback e x) = set ''success''" by simp
  moreover have "CHR '':'' \<in> set (exception_feedback e x)"
    by (simp add: exception_feedback_def)
  ultimately show False by simp
qed

lemma mismatch_feedback_not_success: "''DataFrames not equal: '' @ ae \<noteq> ''success''"
  by simp

lemma write_file_accepted:
  "store_accepts e path \<Longrightarrow>
   write_file e path content w = (None, w\<lparr>writes := (path, content) # writes w\<rparr>)"
  by (simp add: write_file_def store_accepts_def)

lemma write_file_prompts: "prompts (snd (write_file e path content w)) = prompts w"
  by (simp add: write_file_def split: option.splits)

lemma code_tester_node_finally:
  assumes "code_tester_node e s w = Returns (s', w')"
  shows "attempts_left s' = max 0 (attempts_left s - 1) \<and> attempt_no s' = attempt_no s + 1"
  using assms
  by (auto simp: code_tester_node_def finally_block_def Let_def
      split: exec_outcome.splits py_value.splits sum.splits compare_result.splits
             option.splits prod.splits)

lemma code_tester_node_keeps:
  assumes "code_tester_node e s w = Returns (s', w')"
  shows "target s' = target s \<and> pdf_path s' = pdf_path s \<and> csv_path s' = csv_path s \<and>
         code s' = code s \<and> plan s' = plan s"
  using assms
  by (auto simp: code_tester_node_def finally_block_def Let_def
      split: exec_outcome.splits py_value.splits sum.splits compare_result.splits
             option.splits prod.splits)

lemma code_tester_node_raises:
  assumes "code_tester_node e s w = Raises x"
  shows "makedirs_fails e parser_dir = Some x \<or>
         fst (write_file e (attempt_path (target s) (attempt_no s)) (code s) w) = Some x"
  using assms
  by (auto simp: code_tester_node_def Let_def
      split: exec_outcome.splits py_value.splits sum.splits compare_result.splits
             option.splits prod.splits)

lemma code_generator_node_keeps:
  assumes "code_generator_node e s w = Returns (s', w')"
  shows "attempts_left s' = attempts_left s \<and> attempt_no s' = attempt_no s \<and>
         feedback s' = feedback s \<and> target s' = target s \<and> plan s' = plan s \<and>
         pdf_path s' = pdf_path s \<and> csv_path s' = csv_path s \<and> writes w' = writes w"
  using assms
  by (auto simp: code_generator_node_def safe_generate_text_def Let_def split: sum.splits prod.splits)




lemma code_tester_node_fails:
  assumes dirs: "makedirs_fails e parser_dir = None"
    and store: "store_accepts e (attempt_path (target s) (attempt_no s))"
    and fails: "validation_fails e (pdf_path s) (csv_path s) (code s)"
  shows "\<exists>s'. code_tester_node e s w =
                 Returns (s', w\<lparr>writes := (attempt_path (target s) (attempt_no s), code s) # writes w\<rparr>) \<and>
              (feedback s \<noteq> ''success'' \<longrightarrow> feedback s' \<noteq> ''success'')"
  using fails
  by (auto simp: code_tester_node_def dirs write_file_accepted [OF store]
      validation_fails_def validation_passes_def finally_block_def
      Let_def exception_feedback_not_success
      split: exec_outcome.splits py_value.splits sum.splits compare_result.splits)

lemma code_tester_node_passes:
  assumes dirs: "makedirs_fails e parser_dir = None"
    and store: "store_accepts e (attempt_path (target s) (attempt_no s))"
    and final: "store_accepts e (final_path (target s))"
    and passes: "validation_passes e (pdf_path s) (csv_path s) (code s)"
  shows "code_tester_node e s w =
           Returns (finally_block (s\<lparr>feedback := ''success''\<rparr>),
                    w\<lparr>writes := (final_path (target s), code s) #
                                 (attempt_path (target s) (attempt_no s), code s) # writes w\<rparr>)"
  using passes
  by (auto simp: code_tester_node_def dirs write_file_accepted [OF store] write_file_accepted [OF final]
      validation_passes_def Let_def
      split: exec_outcome.splits py_value.splits sum.splits compare_result.splits)




text \<open>An exception leaves the loop only from \<^verbatim>\<open>pd.read_csv\<close> in the generator or from the store.\<close>

lemma generate_and_test_raises:
  assumes "generate_and_test e s w = Raises x"
  shows "read_csv e (csv_path s) = Inl x \<or> makedirs_fails e parser_dir = Some x \<or>
         (\<exists>p. open_fails e p = Some x \<or> write_fails e p = Some x)"
  using assms
proof (induction e s w rule: generate_and_test.induct)
  case (1 e s w)
  show ?case
  proof (cases "code_generator_node e s w")
    case (Raises y)
    with "1.prems" have "y = x" by (subst (asm) generate_and_test.simps) simp
    with Raises show ?thesis
      by (auto simp: code_generator_node_def Let_def split: sum.splits prod.splits)
  next
    case Hangs
    with "1.prems" show ?thesis by (subst (asm) generate_and_test.simps) simp
  next
    case (Returns p1)
    obtain s1 w1 where p1: "p1 = (s1, w1)" by (cases p1)
    note gen = Returns [unfolded p1]
    note k1 = code_generator_node_keeps [OF gen]
    show ?thesis
    proof (cases "code_tester_node e s1 w1")
      case (Raises y)
      with gen "1.prems" have "y = x" by (subst (asm) generate_and_test.simps) simp
      with code_tester_node_raises [of e s1 w1 x] Raises show ?thesis
        by (auto simp: write_file_def split: option.splits)
    next
      case Hangs
      with gen "1.prems" show ?thesis by (subst (asm) generate_and_test.simps) simp
    next
      case (Returns p2)
      obtain s2 w2 where p2: "p2 = (s2, w2)" by (cases p2)
      note tst = Returns [unfolded p2]
      note k2 = code_tester_node_keeps [OF tst]
      show ?thesis
      proof (cases "should_continue s2 = ''continue''")
        case True
        with gen tst "1.prems" have "generate_and_test e s2 w2 = Raises x"
          by (subst (asm) generate_and_test.simps) simp
        from "1.IH" [OF gen refl tst refl True this] k1 k2 show ?thesis by simp
      next
        case False
        with gen tst "1.prems" show ?thesis by (subst (asm) generate_and_test.simps) simp
      qed
    qed
  qed
qed

lemma reference_table_equal_itself: "assert_frame_equal reference_table reference_table = Equal"
  by (simp add: assert_frame_equal_def reindex_like_def labels_def reference_table_def series_close_def)

lemma sample_store:
  "makedirs_fails (sample_env b llm cand) d = None" "store_accepts (sample_env b llm cand) p"
  by (simp_all add: sample_env_def store_accepts_def)

text \<open>
  C10. Whenever the tester returns, on every path (success, mismatch, exception, discarded
  exit request), the new \<open>attempts_left\<close> is \<open>max 0 (attempts_left - 1)\<close> and the new
  \<open>attempt_no\<close> is \<open>attempt_no + 1\<close>; so \<open>attempts_left\<close> is not negative afterwards,
  the attempt number has grown by exactly one, and a success with three attempts left
  leaves two. The tester returns whenever the store takes the attempt file and the
  candidate comes back; the only exceptions that leave it are those of
  \<^verbatim>\<open>os.makedirs\<close>, \<^verbatim>\<open>open\<close> and \<^verbatim>\<open>f.write\<close> before the \<^verbatim>\<open>try\<close>, and then no
  attempt has been counted.
\<close>

theorem tester_always_counts_the_attempt:
  "(\<forall>s' w'. code_tester_node e s w = Returns (s', w') \<longrightarrow>
      attempts_left s' = max 0 (attempts_left s - 1) \<and>
      attempt_no s' = attempt_no s + 1 \<and>
      0 \<le> attempts_left s' \<and>
      attempt_no s < attempt_no s' \<and>
      (feedback s' = ''success'' \<and> attempts_left s = 3 \<longrightarrow> attempts_left s' = 2)) \<and>
   (makedirs_fails e parser_dir = None \<and>
    store_accepts e (attempt_path (target s) (attempt_no s)) \<and>
    run_candidate e (code s) (pdf_path s) \<noteq> NeverReturns \<longrightarrow>
      (\<exists>s' w'. code_tester_node e s w = Returns (s', w'))) \<and>
   (\<forall>x. code_tester_node e s w = Raises x \<longrightarrow>
      makedirs_fails e parser_dir = Some x \<or>
      open_fails e (attempt_path (target s) (attempt_no s)) = Some x \<or>
      write_fails e (attempt_path (target s) (attempt_no s)) = Some x)"
proof (intro conjI allI impI)
  fix s' w'
  assume r: "code_tester_node e s w = Returns (s', w')"
  from code_tester_node_finally [OF r]
  show "attempts_left s' = max 0 (attempts_left s - 1)" and "attempt_no s' = attempt_no s + 1"
    and "0 \<le> attempts_left s'" and "attempt_no s < attempt_no s'"
    by simp_all
next
  fix s' w'
  assume r: "code_tester_node e s w = Returns (s', w')"
    and "feedback s' = ''success'' \<and> attempts_left s = 3"
  with code_tester_node_finally [OF r] show "attempts_left s' = 2" by simp
next
  assume h: "makedirs_fails e parser_dir = None \<and>
    store_accepts e (attempt_path (target s) (attempt_no s)) \<and>
    run_candidate e (code s) (pdf_path s) \<noteq> NeverReturns"
  then have st: "store_accepts e (attempt_path (target s) (attempt_no s))"
    and dirs: "makedirs_fails e parser_dir = None"
    and ret: "run_candidate e (code s) (pdf_path s) \<noteq> NeverReturns" by simp_all
  obtain r w2 where fin: "write_file e (final_path (target s)) (code s)
      (w\<lparr>writes := (attempt_path (target s) (attempt_no s), code s) # writes w\<rparr>) = (r, w2)"
    by (cases "write_file e (final_path (target s)) (code s)
      (w\<lparr>writes := (attempt_path (target s) (attempt_no s), code s) # writes w\<rparr>)")
  from ret show "\<exists>s' w'. code_tester_node e s w = Returns (s', w')"
    by (simp add: code_tester_node_def dirs write_file_accepted [OF st] fin Let_def
        split: exec_outcome.splits py_value.splits sum.splits compare_result.splits option.splits)
next
  fix x
  assume "code_tester_node e s w = Raises x"
  from code_tester_node_raises [OF this]
  show "makedirs_fails e parser_dir = Some x \<or>
      open_fails e (attempt_path (target s) (attempt_no s)) = Some x \<or>
      write_fails e (attempt_path (target s) (attempt_no s)) = Some x"
    by (auto simp: write_file_def split: option.splits)
qed

theorem tester_always_counts_the_attempt_witness:
  "(\<exists>s' w'. code_tester_node (sample_env True (\<lambda>k. Reply []) (\<lambda>src. NoParseAttr)) sample_state empty_world
              = Returns (s', w') \<and>
            feedback s' \<noteq> ''success'' \<and> attempts_left s' = 2 \<and> attempt_no s' = 2) \<and>
   (\<exists>s' w'. code_tester_node
               (sample_env True (\<lambda>k. Reply []) (\<lambda>src. ParseReturns (DataFrame reference_table)))
               sample_state empty_world = Returns (s', w') \<and>
            feedback s' = ''success'' \<and> attempts_left s' = 2 \<and> attempt_no s' = 2)"
proof
  let ?e = "sample_env True (\<lambda>k. Reply []) (\<lambda>src. NoParseAttr)"
  have fails: "validation_fails ?e (pdf_path sample_state) (csv_path sample_state) (code sample_state)"
    by (simp add: validation_fails_def validation_passes_def sample_env_def)
  from code_tester_node_fails [OF sample_store fails, of empty_world]
  obtain s' w' where r: "code_tester_node ?e sample_state empty_world = Returns (s', w')"
    and fb: "feedback s' \<noteq> ''success''"
    by (auto simp: sample_state_def initial_state_def)
  from tester_always_counts_the_attempt [of ?e sample_state empty_world] r
  have "attempts_left s' = max 0 (attempts_left sample_state - 1)"
    and "attempt_no s' = attempt_no sample_state + 1"
    by blast+
  then have "attempts_left s' = 2 \<and> attempt_no s' = 2"
    by (simp add: sample_state_def initial_state_def)
  with r fb show "\<exists>s' w'. code_tester_node ?e sample_state empty_world = Returns (s', w') \<and>
      feedback s' \<noteq> ''success'' \<and> attempts_left s' = 2 \<and> attempt_no s' = 2"
    by blast
next
  let ?e = "sample_env True (\<lambda>k. Reply []) (\<lambda>src. ParseReturns (DataFrame reference_table))"
  have passes: "validation_passes ?e (pdf_path sample_state) (csv_path sample_state) (code sample_state)"
    by (simp add: validation_passes_def sample_env_def reference_table_equal_itself)
  note r = code_tester_node_passes [OF sample_store(1) sample_store(2) sample_store(2) passes, of empty_world]
  let ?s' = "finally_block (sample_state\<lparr>feedback := ''success''\<rparr>)"
  have fb: "feedback ?s' = ''success''" and three: "attempts_left sample_state = 3"
    by (simp_all add: finally_block_def sample_state_def initial_state_def)
  from tester_always_counts_the_attempt [of ?e sample_state empty_world] r fb three
  have "attempts_left ?s' = 2" and "attempt_no ?s' = attempt_no sample_state + 1"
    by blast+
  then have "attempts_left ?s' = 2 \<and> attempt_no ?s' = 2"
    by (simp add: sample_state_def initial_state_def)
  with r fb show "\<exists>s' w'. code_tester_node ?e sample_state empty_world = Returns (s', w') \<and>
      feedback s' = ''success'' \<and> attempts_left s' = 2 \<and> attempt_no s' = 2"
    by blast
qed








lemma sample_path_icici:
  "sample_path ''icici'' ''pdf'' = ''data/icici/icic_sample.pdf''"
  "sample_path ''icici'' ''csv'' = ''data/icici/icic_sample.csv''"
  "sample_path ''sbi'' ''csv'' = ''data/sbi/sbi_sample.csv''"
  by (simp_all add: sample_path_def path_join_def)

end
